theory Spec2Isabelle
  imports Complex_Main
begin

section \<open>Data model of the search response and of the traffic-light result\<close>

text \<open>
  The interface \<open>SearchResultItem\<close> of \<^verbatim>\<open>TrafficLightResult.tsx.backup\<close> (lines 165-174).
  \<open>risk_level\<close> is an arbitrary string; \<open>summary\<close> is optional.
\<close>

record SearchResultItem =
  source :: string
  date :: string
  title :: string
  risk_level :: string
  confidence :: real
  url :: string
  summary :: "string option"

text \<open>
  The backend response, with the shape that \<open>validateResponseFormat\<close> documents
  (\<^verbatim>\<open>LandingPage.tsx\<close>, lines 342-373) and \<open>mockSearchResponse\<close> instantiates.
  The field \<open>results\<close> may be absent: both consumers read it as \<open>results || []\<close>.
\<close>

record DateRange =
  range_start :: "string option"
  range_end :: "string option"
  days_back :: nat

record Metadata =
  total_results :: nat
  boe_results :: nat
  news_results :: nat
  rss_results :: nat
  high_risk_results :: nat
  sources_searched :: "string list"

record SearchResponse =
  company_name :: string
  search_date :: string
  date_range :: DateRange
  results :: "SearchResultItem list option"
  metadata :: Metadata

text \<open>
  The converted object handed to the display component. \<open>blocks\<close> is an object
  literal whose keys are read in insertion order by \<open>Object.keys\<close>, so it is an
  association list. \<open>searchResults\<close> is optional in the component
  (\<open>result.searchResults?.results\<close>).
\<close>

record TrafficLightResponse =
  company :: string
  vat :: string
  overall :: string
  blocks :: "(string \<times> string) list"
  searchResults :: "SearchResponse option"

section \<open>The conversion of \<open>testDataConversion\<close>\<close>

text \<open>\<open>x || []\<close> on an optional array.\<close>

definition orEmpty :: "'a list option \<Rightarrow> 'a list" where
  "orEmpty xs = (case xs of None \<Rightarrow> [] | Some ys \<Rightarrow> ys)"

text \<open>Lines 429-437: the two filters compare \<open>risk_level\<close> with \<open>===\<close> against two
  literals each.\<close>

definition highRiskCount :: "SearchResultItem list \<Rightarrow> nat" where
  "highRiskCount rs =
     length (filter (\<lambda>r. risk_level r = ''High-Legal'' \<or> risk_level r = ''High-Financial'') rs)"

definition mediumRiskCount :: "SearchResultItem list \<Rightarrow> nat" where
  "mediumRiskCount rs =
     length (filter (\<lambda>r. risk_level r = ''Medium-Legal'' \<or> risk_level r = ''Medium-Financial'') rs)"

text \<open>Lines 439-441.\<close>

definition overallOf :: "SearchResultItem list \<Rightarrow> string" where
  "overallOf rs =
     (if highRiskCount rs > 0 then ''red''
      else if mediumRiskCount rs > 0 then ''orange''
      else ''green'')"

text \<open>Lines 428-454, which the source comments as a simulation of the application's
  conversion function, with the response as a parameter (the page applies them to
  \<open>mockSearchResponse\<close>).\<close>

definition convertSearchResponse :: "SearchResponse \<Rightarrow> TrafficLightResponse" where
  "convertSearchResponse resp =
     \<lparr> company = company_name resp,
       vat = ''N/A'',
       overall = overallOf (orEmpty (results resp)),
       blocks = [(''turnover'', ''green''), (''shareholding'', ''green''),
                 (''bankruptcy'', ''green''), (''legal'', ''green'')],
       searchResults = Some resp \<rparr>"

text \<open>Lines 391-425. The two titles are written without their accents; no function
  of the page or of the component inspects a title.\<close>

definition mockSearchResponse :: SearchResponse where
  "mockSearchResponse =
     \<lparr> company_name = ''Banco Santander'',
       search_date = ''2025-07-03T00:31:39Z'',
       date_range = \<lparr> range_start = None, range_end = None, days_back = 7 \<rparr>,
       results = Some
         [ \<lparr> source = ''RSS-EXPANSION'', date = ''2025-07-02T01:17:07+02:00Z'',
             title = ''Santander busca sinergias de mas del 50% con TSB'',
             risk_level = ''Low-Legal'', confidence = 82 / 100,
             url = ''https://example.com/article1'', summary = None \<rparr>,
           \<lparr> source = ''News'', date = ''2025-07-02T00:13:35Z'',
             title = ''Unlocked AI, Finvero y Tuiio Santander se alian'',
             risk_level = ''No-Legal'', confidence = 8 / 10,
             url = ''https://example.com/article2'', summary = None \<rparr> ],
       metadata = \<lparr> total_results = 2, boe_results = 0, news_results = 1, rss_results = 1,
                    high_risk_results = 0,
                    sources_searched = [''boe'', ''newsapi'', ''elpais'', ''expansion''] \<rparr> \<rparr>"

text \<open>
  The page around the conversion (lines 385-466). The document is a map from element
  ids to the content of the element; the markup written is kept as a value that records
  what is interpolated into it. \<open>getElementById\<close> returns \<open>null\<close> for a missing id,
  and the assignment to the content of \<open>null\<close> then throws.
\<close>

datatype html =
    Markup string
  | Loading string
  | ConversionPassed SearchResponse TrafficLightResponse

datatype js_error = TypeError

type_synonym document = "string \<Rightarrow> html option"

definition conversionTest :: "SearchResponse \<Rightarrow> document \<Rightarrow> js_error + document" where
  "conversionTest resp doc =
     (case doc ''conversion-result'' of
        None \<Rightarrow> Inl TypeError
      | Some _ \<Rightarrow>
          (let doc1 = doc(''conversion-result'' \<mapsto> Loading ''Testing data conversion...'');
               convertedResult = convertSearchResponse resp
           in Inr (doc1(''conversion-result'' \<mapsto> ConversionPassed resp convertedResult))))"

definition testDataConversion :: "document \<Rightarrow> js_error + document" where
  "testDataConversion doc = conversionTest mockSearchResponse doc"

section \<open>Property lookup on object literals\<close>

text \<open>
  \<open>colorMap\<close> and \<open>riskLevelColorMap\<close> are plain object literals, read with
  \<open>obj[key]\<close> for a key that is a run-time string. Such a read finds the literal's
  own entries first and then the members that every object literal inherits from
  \<open>Object.prototype\<close>; only when both fail is the value \<open>undefined\<close>. The
  TypeScript annotations (\<open>as const\<close>, \<open>keyof typeof\<close>) are erased at run time.
\<close>

datatype jsval =
    JUndefined
  | JString string
  | JInherited string

text \<open>The property names of \<open>Object.prototype\<close> (ECMAScript, with Annex B).\<close>

definition objectPrototypeKeys :: "string list" where
  "objectPrototypeKeys =
     [''constructor'', ''hasOwnProperty'', ''isPrototypeOf'', ''propertyIsEnumerable'',
      ''toLocaleString'', ''toString'', ''valueOf'', ''__proto__'',
      ''__defineGetter__'', ''__defineSetter__'', ''__lookupGetter__'', ''__lookupSetter__'']"

definition getProperty :: "(string \<times> string) list \<Rightarrow> string \<Rightarrow> jsval" where
  "getProperty obj k =
     (case map_of obj k of
        Some v \<Rightarrow> JString v
      | None \<Rightarrow> if k \<in> set objectPrototypeKeys then JInherited k else JUndefined)"

text \<open>Truthiness and \<open>a || b\<close>: \<open>undefined\<close> and the empty string are falsy,
  functions and objects are truthy.\<close>

fun truthy :: "jsval \<Rightarrow> bool" where
  "truthy JUndefined = False"
| "truthy (JString s) = (s \<noteq> [])"
| "truthy (JInherited k) = True"

definition js_or :: "jsval \<Rightarrow> jsval \<Rightarrow> jsval" where
  "js_or a b = (if truthy a then a else b)"

text \<open>\<open>s.startsWith(p)\<close>.\<close>

fun startsWith :: "string \<Rightarrow> string \<Rightarrow> bool" where
  "startsWith s [] = True"
| "startsWith [] (c # p) = False"
| "startsWith (d # s) (c # p) = (d = c \<and> startsWith s p)"

text \<open>\<open>s.toUpperCase()\<close> on the ASCII letters; other characters are left as they
  are (the strings it is applied to here are colour names).\<close>

definition toUpperChar :: "char \<Rightarrow> char" where
  "toUpperChar c =
     (case map_of (zip ''abcdefghijklmnopqrstuvwxyz'' ''ABCDEFGHIJKLMNOPQRSTUVWXYZ'') c of
        Some u \<Rightarrow> u
      | None \<Rightarrow> c)"

definition toUpperCase :: "string \<Rightarrow> string" where
  "toUpperCase s = map toUpperChar s"

section \<open>The tables of \<open>TrafficLightResult\<close>\<close>

text \<open>Lines 73-77.\<close>

definition colorMap :: "(string \<times> string) list" where
  "colorMap = [(''green'', ''success''), (''orange'', ''warning''), (''red'', ''error'')]"

text \<open>Lines 80-97.\<close>

definition riskLevelColorMap :: "(string \<times> string) list" where
  "riskLevelColorMap =
     [(''Low-Other'', ''success''),
      (''Low-Regulatory'', ''success''),
      (''Low-Legal'', ''success''),
      (''Low-Financial'', ''success''),
      (''Low-Operational'', ''success''),
      (''Medium-Economic'', ''warning''),
      (''Medium-Tax'', ''warning''),
      (''Medium-Legal'', ''warning''),
      (''Medium-Financial'', ''warning''),
      (''Medium-Regulatory'', ''warning''),
      (''Medium-Operational'', ''warning''),
      (''High-Legal'', ''error''),
      (''High-Financial'', ''error''),
      (''High-Regulatory'', ''error''),
      (''High-Operational'', ''error''),
      (''Unknown'', ''default'')]"

text \<open>The categories of the risk taxonomy, as the specification lists them.\<close>

definition taxonomy :: "string list" where
  "taxonomy = [''Legal'', ''Financial'', ''Regulatory'', ''Operational'', ''Tax'',
               ''Economic'', ''Other'']"

section \<open>What \<open>TrafficLightResult\<close> renders\<close>

datatype icon = CheckCircleIcon | WarningAmberIcon | ErrorIcon | InfoOutlinedIcon

text \<open>Lines 954-956: the colour of a result's chip in the detailed table.\<close>

definition riskChipColor :: "string \<Rightarrow> jsval" where
  "riskChipColor rl = js_or (getProperty riskLevelColorMap rl) (JString ''default'')"

text \<open>Lines 960-968: the icon of the same chip.\<close>

definition riskChipIcon :: "string \<Rightarrow> icon" where
  "riskChipIcon rl =
     (if startsWith rl ''High'' then ErrorIcon
      else if startsWith rl ''Medium'' then WarningAmberIcon
      else if startsWith rl ''Low'' then CheckCircleIcon
      else InfoOutlinedIcon)"

text \<open>Lines 616-662 and 682-729: the four numbers of the summary bar, which the
  summary section repeats.\<close>

definition totalCount :: "SearchResultItem list \<Rightarrow> nat" where
  "totalCount rs = length rs"

definition highCount :: "SearchResultItem list \<Rightarrow> nat" where
  "highCount rs = length (filter (\<lambda>r. startsWith (risk_level r) ''High'') rs)"

definition mediumCount :: "SearchResultItem list \<Rightarrow> nat" where
  "mediumCount rs = length (filter (\<lambda>r. startsWith (risk_level r) ''Medium'') rs)"

definition lowCount :: "SearchResultItem list \<Rightarrow> nat" where
  "lowCount rs = length (filter (\<lambda>r. startsWith (risk_level r) ''Low'') rs)"

text \<open>Lines 501-512 and 568-572: one row of the Detailed Parameters table per key of
  \<open>result.blocks\<close>.\<close>

record ParameterRow =
  row_param :: string
  row_label :: string
  row_color :: jsval
  row_icon :: icon

definition parameterRow :: "string \<times> string \<Rightarrow> ParameterRow" where
  "parameterRow kv =
     (let risk = snd kv in
      \<lparr> row_param = fst kv,
        row_label = toUpperCase risk,
        row_color = getProperty colorMap risk,
        row_icon = (if risk = ''green'' then CheckCircleIcon
                    else if risk = ''orange'' then WarningAmberIcon
                    else ErrorIcon) \<rparr>)"

definition parameterRows :: "TrafficLightResponse \<Rightarrow> ParameterRow list" where
  "parameterRows result = map parameterRow (blocks result)"

text \<open>Lines 908-971: one row of the detailed dialog per search result.\<close>

record DetailRow =
  item_label :: string
  item_color :: jsval
  item_icon :: icon

definition detailRow :: "SearchResultItem \<Rightarrow> DetailRow" where
  "detailRow item =
     \<lparr> item_label = risk_level item,
       item_color = riskChipColor (risk_level item),
       item_icon = riskChipIcon (risk_level item) \<rparr>"

text \<open>Lines 425-430: the three conditional sentences under the overall chip.\<close>

definition overallMessage :: "string \<Rightarrow> string" where
  "overallMessage ov =
     (if ov = ''green'' then ''Low risk profile. Recommended for renewal.'' else [])
     @ (if ov = ''orange'' then ''Medium risk profile. Review recommended.'' else [])
     @ (if ov = ''red'' then ''High risk profile. Caution advised.'' else [])"

record ResultCard =
  card_company :: string
  card_vat :: string
  overall_label :: string
  overall_color :: jsval
  overall_icon :: icon
  overall_message :: string
  parameter_table :: "ParameterRow list"
  total_chip :: nat
  high_chip :: nat
  medium_chip :: nat
  low_chip :: nat
  detail_table :: "DetailRow list"

datatype view =
    NoResultsCard string string
  | ResultsView ResultCard

text \<open>Lines 235-236.\<close>

definition searchResultsOf :: "TrafficLightResponse \<Rightarrow> SearchResultItem list" where
  "searchResultsOf result =
     (case searchResults result of None \<Rightarrow> [] | Some resp \<Rightarrow> orEmpty (results resp))"

definition hasSearchResults :: "TrafficLightResponse \<Rightarrow> bool" where
  "hasSearchResults result = (length (searchResultsOf result) > 0)"

text \<open>Lines 276-300 (the early return) and 302-1058.\<close>

definition render :: "TrafficLightResponse \<Rightarrow> view" where
  "render result =
     (if \<not> hasSearchResults result then
        NoResultsCard ''No results found for this company.''
                      ''Try another search or check your spelling.''
      else
        ResultsView
          \<lparr> card_company = company result,
            card_vat = vat result,
            overall_label = toUpperCase (overall result),
            overall_color = getProperty colorMap (overall result),
            overall_icon = (if overall result = ''green'' then CheckCircleIcon
                            else if overall result = ''orange'' then WarningAmberIcon
                            else ErrorIcon),
            overall_message = overallMessage (overall result),
            parameter_table = parameterRows result,
            total_chip = totalCount (searchResultsOf result),
            high_chip = highCount (searchResultsOf result),
            medium_chip = mediumCount (searchResultsOf result),
            low_chip = lowCount (searchResultsOf result),
            detail_table = map detailRow (searchResultsOf result) \<rparr>)"

section \<open>The management-summary buttons\<close>

text \<open>
  The component state that the two summary buttons read and write (lines 221-226).
  \<open>summaryLoading\<close> and \<open>summaryError\<close> are outputs of the mutation hook
  \<open>useGetManagementSummaryMutation\<close>, which is imported from outside these sources:
  they change only through the event \<open>HookUpdate\<close>, with any values. \<open>invocations\<close>
  logs every call of \<open>getManagementSummary\<close> together with the handler that made it.
\<close>

datatype caller = PrimaryButton | RetryButton

record SummaryState =
  retryCount :: nat
  showSummary :: bool
  summaryLoading :: bool
  summaryError :: bool
  invocations :: "caller list"

definition initialState :: SummaryState where
  "initialState =
     \<lparr> retryCount = 0, showSummary = False, summaryLoading = False, summaryError = False,
       invocations = [] \<rparr>"

text \<open>Lines 255-266, up to the \<open>await\<close>: the counter is incremented and the request
  sent. The handler itself has no guard.\<close>

definition handleRetrySummary :: "SummaryState \<Rightarrow> SummaryState" where
  "handleRetrySummary s =
     s\<lparr> retryCount := retryCount s + 1, invocations := invocations s @ [RetryButton] \<rparr>"

text \<open>Lines 794-808, up to the \<open>await\<close>.\<close>

definition handleGetSummary :: "SummaryState \<Rightarrow> SummaryState" where
  "handleGetSummary s = s\<lparr> invocations := invocations s @ [PrimaryButton] \<rparr>"

text \<open>After the \<open>await\<close>, in both handlers: \<open>setShowSummary(true)\<close> when the promise
  resolves, a console message when it rejects.\<close>

definition afterAwait :: "bool \<Rightarrow> SummaryState \<Rightarrow> SummaryState" where
  "afterAwait resolved s = (if resolved then s\<lparr> showSummary := True \<rparr> else s)"

text \<open>
  What a render puts on the page for the two buttons. The Retry button (lines 834-848)
  exists only inside the results card and only while the hook reports an error; its
  \<open>disabled\<close> attribute and its label are computed from \<open>retryCount\<close> at render time.
  The primary button (lines 789-818) exists inside the results card and is disabled
  while the hook is loading or when there are no results; it does not read
  \<open>retryCount\<close>.
\<close>

record Buttons =
  retryShown :: bool
  retryDisabled :: bool
  retryLabel :: string
  primaryShown :: bool
  primaryDisabled :: bool

definition renderButtons :: "TrafficLightResponse \<Rightarrow> SummaryState \<Rightarrow> Buttons" where
  "renderButtons result s =
     \<lparr> retryShown = (hasSearchResults result \<and> summaryError s),
       retryDisabled = (retryCount s \<ge> 3),
       retryLabel = (if retryCount s \<ge> 3 then ''Max retries reached'' else ''Retry''),
       primaryShown = hasSearchResults result,
       primaryDisabled = (summaryLoading s \<or> length (searchResultsOf result) = 0) \<rparr>"

text \<open>
  The mounted component: its state, and the buttons as the last render left them.
  A click reaches its handler when the button is on the page and its \<open>disabled\<close>
  attribute, as last rendered, is off; the handlers themselves check nothing. The
  page changes only at a \<open>Rerender\<close>, which may or may not come between two other
  events.
\<close>

record Component =
  comp_state :: SummaryState
  comp_buttons :: Buttons

definition mount :: "TrafficLightResponse \<Rightarrow> Component" where
  "mount result =
     \<lparr> comp_state = initialState, comp_buttons = renderButtons result initialState \<rparr>"

datatype event =
    ClickRetry
  | ClickPrimary
  | HookUpdate bool bool
  | Settled bool
  | Rerender

fun step :: "TrafficLightResponse \<Rightarrow> Component \<Rightarrow> event \<Rightarrow> Component" where
  "step result c ClickRetry =
     (if retryShown (comp_buttons c) \<and> \<not> retryDisabled (comp_buttons c)
      then c\<lparr> comp_state := handleRetrySummary (comp_state c) \<rparr> else c)"
| "step result c ClickPrimary =
     (if primaryShown (comp_buttons c) \<and> \<not> primaryDisabled (comp_buttons c)
      then c\<lparr> comp_state := handleGetSummary (comp_state c) \<rparr> else c)"
| "step result c (HookUpdate loading err) =
     c\<lparr> comp_state := (comp_state c)\<lparr> summaryLoading := loading, summaryError := err \<rparr> \<rparr>"
| "step result c (Settled resolved) = c\<lparr> comp_state := afterAwait resolved (comp_state c) \<rparr>"
| "step result c Rerender = c\<lparr> comp_buttons := renderButtons result (comp_state c) \<rparr>"

definition run :: "TrafficLightResponse \<Rightarrow> Component \<Rightarrow> event list \<Rightarrow> Component" where
  "run result c evs = foldl (step result) c evs"

text \<open>The same events with a render after each of them.\<close>

definition withRerender :: "event list \<Rightarrow> event list" where
  "withRerender evs = concat (map (\<lambda>e. [e, Rerender]) evs)"

definition retryInvocations :: "SummaryState \<Rightarrow> nat" where
  "retryInvocations s = length (filter (\<lambda>c. c = RetryButton) (invocations s))"

text \<open>The invariant of runs that render after every event: the page shows the current
  state, the counter has not passed three, and it equals the number of requests that
  the retry handler has sent.\<close>

definition retryInvariant :: "TrafficLightResponse \<Rightarrow> Component \<Rightarrow> bool" where
  "retryInvariant result c =
     (comp_buttons c = renderButtons result (comp_state c)
      \<and> retryCount (comp_state c) \<le> 3
      \<and> retryInvocations (comp_state c) = retryCount (comp_state c))"

section \<open>Inputs used in the concrete evaluations\<close>

text \<open>A search result with a given label and confidence, and a response that carries a
  given list of results; the other fields are placeholders that no function reads.\<close>

definition itemWith :: "string \<Rightarrow> real \<Rightarrow> SearchResultItem" where
  "itemWith rl c =
     \<lparr> source = ''News'', date = ''2025-07-02T00:13:35Z'', title = ''t'',
       risk_level = rl, confidence = c, url = ''https://example.com/a'', summary = None \<rparr>"

definition responseWith :: "SearchResultItem list \<Rightarrow> SearchResponse" where
  "responseWith rs =
     \<lparr> company_name = ''ACME'',
       search_date = ''2025-07-03T00:31:39Z'',
       date_range = \<lparr> range_start = None, range_end = None, days_back = 7 \<rparr>,
       results = Some rs,
       metadata = \<lparr> total_results = length rs, boe_results = 0, news_results = length rs,
                    rss_results = 0, high_risk_results = 0, sources_searched = [''newsapi''] \<rparr> \<rparr>"

section \<open>Helper facts\<close>

lemma toUpperCase_green: "toUpperCase ''green'' = ''GREEN''"
  by (simp add: toUpperCase_def toUpperChar_def)

lemma parameterRow_green:
  "parameterRow (p, ''green'') =
     \<lparr> row_param = p, row_label = ''GREEN'', row_color = JString ''success'',
       row_icon = CheckCircleIcon \<rparr>"
  by (simp add: parameterRow_def toUpperCase_green getProperty_def colorMap_def)

lemma riskLevelColorMap_keys:
  "map fst riskLevelColorMap =
     [''Low-Other'', ''Low-Regulatory'', ''Low-Legal'', ''Low-Financial'', ''Low-Operational'',
      ''Medium-Economic'', ''Medium-Tax'', ''Medium-Legal'', ''Medium-Financial'',
      ''Medium-Regulatory'', ''Medium-Operational'', ''High-Legal'', ''High-Financial'',
      ''High-Regulatory'', ''High-Operational'', ''Unknown'']"
  by (simp add: riskLevelColorMap_def)

text \<open>Outside the table and outside \<open>Object.prototype\<close> the fallback of
  \<open>riskChipColor\<close> applies.\<close>

lemma riskChipColor_fallback:
  assumes "k \<notin> set (map fst riskLevelColorMap)" and "k \<notin> set objectPrototypeKeys"
  shows "riskChipColor k = JString ''default''"
proof -
  from assms(1) have "map_of riskLevelColorMap k = None"
    by (simp add: map_of_eq_None_iff)
  with assms(2) show ?thesis
    by (simp add: riskChipColor_def getProperty_def js_or_def)
qed

text \<open>A name inherited from \<open>Object.prototype\<close> that the table does not shadow is
  truthy, so the fallback is not taken.\<close>

lemma riskChipColor_inherited:
  assumes "k \<notin> set (map fst riskLevelColorMap)" and "k \<in> set objectPrototypeKeys"
  shows "riskChipColor k = JInherited k"
proof -
  from assms(1) have "map_of riskLevelColorMap k = None"
    by (simp add: map_of_eq_None_iff)
  with assms(2) show ?thesis
    by (simp add: riskChipColor_def getProperty_def js_or_def)
qed




text \<open>The three prefixes of the summary bar exclude one another.\<close>

lemma startsWith_High_not_Medium: "startsWith s ''High'' \<Longrightarrow> \<not> startsWith s ''Medium''"
  by (cases s) auto

lemma startsWith_High_not_Low: "startsWith s ''High'' \<Longrightarrow> \<not> startsWith s ''Low''"
  by (cases s) auto

lemma startsWith_Medium_not_Low: "startsWith s ''Medium'' \<Longrightarrow> \<not> startsWith s ''Low''"
  by (cases s) auto

lemma prefix_counts_bound:
  "highCount rs + mediumCount rs + lowCount rs \<le> totalCount rs"
proof (induction rs)
  case Nil
  show ?case by (simp add: highCount_def mediumCount_def lowCount_def totalCount_def)
next
  case (Cons r rs)
  then show ?case
    using startsWith_High_not_Medium [of "risk_level r"]
          startsWith_High_not_Low [of "risk_level r"]
          startsWith_Medium_not_Low [of "risk_level r"]
    by (auto simp: highCount_def mediumCount_def lowCount_def totalCount_def)
qed

lemma prefix_counts_equal_iff:
  "(highCount rs + mediumCount rs + lowCount rs = totalCount rs) =
     (\<forall>r \<in> set rs. startsWith (risk_level r) ''High''
                   \<or> startsWith (risk_level r) ''Medium''
                   \<or> startsWith (risk_level r) ''Low'')"
proof (induction rs)
  case Nil
  show ?case by (simp add: highCount_def mediumCount_def lowCount_def totalCount_def)
next
  case (Cons r rs)
  have bound: "highCount rs + mediumCount rs + lowCount rs \<le> totalCount rs"
    by (rule prefix_counts_bound)
  show ?case
    using Cons.IH bound
          startsWith_High_not_Medium [of "risk_level r"]
          startsWith_High_not_Low [of "risk_level r"]
          startsWith_Medium_not_Low [of "risk_level r"]
    by (auto simp: highCount_def mediumCount_def lowCount_def totalCount_def)
qed


lemma retryInvariant_mount: "retryInvariant result (mount result)"
  by (simp add: retryInvariant_def mount_def initialState_def retryInvocations_def)

lemma retryInvariant_step:
  "retryInvariant result c \<Longrightarrow> retryInvariant result (step result (step result c ev) Rerender)"
  by (cases ev)
     (auto simp: retryInvariant_def retryInvocations_def handleRetrySummary_def
                 handleGetSummary_def afterAwait_def renderButtons_def)

lemma retryInvariant_run:
  "retryInvariant result c \<Longrightarrow> retryInvariant result (run result c (withRerender evs))"
proof (induction evs arbitrary: c)
  case Nil
  then show ?case by (simp add: run_def withRerender_def)
next
  case (Cons e evs)
  have "run result c (withRerender (e # evs))
          = run result (step result (step result c e) Rerender) (withRerender evs)"
    by (simp add: run_def withRerender_def del: step.simps)
  with Cons.IH [OF retryInvariant_step [OF Cons.prems, of e]] show ?case
    by simp
qed

text \<open>When every event is followed by a render, the retry handler sends at most three
  requests, and a click on Retry after the third changes nothing.\<close>

lemma retry_bound_when_rendered:
  "retryInvocations (comp_state (run result (mount result) (withRerender evs))) \<le> 3"
  using retryInvariant_run [OF retryInvariant_mount, of result evs]
  by (simp add: retryInvariant_def)

lemma retry_click_rejected_when_rendered:
  assumes "3 \<le> retryCount (comp_state (run result (mount result) (withRerender evs)))"
  shows "step result (run result (mount result) (withRerender evs)) ClickRetry
           = run result (mount result) (withRerender evs)"
  using retryInvariant_run [OF retryInvariant_mount, of result evs] assms
  by (simp add: retryInvariant_def renderButtons_def)

text \<open>The handler has no guard of its own: two clicks that reach it between two
  renders both increment the counter and both send a request.\<close>

lemma retry_clicks_between_renders:
  assumes "retryShown (comp_buttons c)" and "\<not> retryDisabled (comp_buttons c)"
  shows "retryCount (comp_state (run result c [ClickRetry, ClickRetry]))
           = retryCount (comp_state c) + 2
         \<and> invocations (comp_state (run result c [ClickRetry, ClickRetry]))
           = invocations (comp_state c) @ [RetryButton, RetryButton]"
  using assms by (simp add: run_def handleRetrySummary_def)

text \<open>The primary button does not read the retry counter: when it is on the page and
  enabled, a click on it sends a request whatever the counter is.\<close>

lemma step_primary_sends:
  assumes "primaryShown (comp_buttons c)" and "\<not> primaryDisabled (comp_buttons c)"
  shows "invocations (comp_state (step result c ClickPrimary))
           = invocations (comp_state c) @ [PrimaryButton]
         \<and> retryCount (comp_state (step result c ClickPrimary)) = retryCount (comp_state c)"
  using assms by (simp add: handleGetSummary_def)

text \<open>The page's own run: on the literal response of \<open>testDataConversion\<close> the overall
  colour is green.\<close>

lemma mock_overall_green: "overall (convertSearchResponse mockSearchResponse) = ''green''"
  by (simp add: convertSearchResponse_def mockSearchResponse_def orEmpty_def overallOf_def
        highRiskCount_def mediumRiskCount_def)



text \<open>The High and Low labels that the colour table does hold.\<close>

lemma table_high_low_colours:
  "\<forall>c \<in> set [''Legal'', ''Financial'', ''Regulatory'', ''Operational''].
      riskChipColor (''High-'' @ c) = JString ''error''
      \<and> riskChipColor (''Low-'' @ c) = JString ''success''"
  by (simp add: riskChipColor_def getProperty_def riskLevelColorMap_def js_or_def)

section \<open>The conversion\<close>




text \<open>
  Claim C5, as stated, at its own input: one \<open>High-Legal\<close> result with confidence 0.9
  and one \<open>Low-Financial\<close> result with confidence 0.7. Under the traffic-light mapping
  the claimed profile would show Legal as red and Financial as green next to a red
  overall verdict. The converted result is red overall, but its legal block is green
  and it has no financial block, so the statement is false there.
\<close>

theorem profile_scenario_counterexample:
  "\<not> (overall (convertSearchResponse
          (responseWith [itemWith ''High-Legal'' (9 / 10), itemWith ''Low-Financial'' (7 / 10)]))
        = ''red''
      \<and> map_of (blocks (convertSearchResponse
          (responseWith [itemWith ''High-Legal'' (9 / 10), itemWith ''Low-Financial'' (7 / 10)])))
          ''legal'' = Some ''red''
      \<and> map_of (blocks (convertSearchResponse
          (responseWith [itemWith ''High-Legal'' (9 / 10), itemWith ''Low-Financial'' (7 / 10)])))
          ''financial'' = Some ''green'')"
  by (simp add: convertSearchResponse_def)

text \<open>
  Claim C5, amended. For the input of one \<open>High-Legal\<close> result (confidence 0.9) and
  one \<open>Low-Financial\<close> result (confidence 0.7) the overall traffic light is red, the
  \<open>High-Legal\<close> result is shown with the error colour and the \<open>Low-Financial\<close> result
  with the success colour; the converted result holds no per-category profile: its
  blocks are the fixed four, all green.
\<close>

theorem profile_scenario_overall_red:
  "overall (convertSearchResponse
      (responseWith [itemWith ''High-Legal'' (9 / 10), itemWith ''Low-Financial'' (7 / 10)]))
     = ''red''
   \<and> map detailRow (searchResultsOf (convertSearchResponse
      (responseWith [itemWith ''High-Legal'' (9 / 10), itemWith ''Low-Financial'' (7 / 10)])))
     = [\<lparr> item_label = ''High-Legal'', item_color = JString ''error'', item_icon = ErrorIcon \<rparr>,
        \<lparr> item_label = ''Low-Financial'', item_color = JString ''success'',
          item_icon = CheckCircleIcon \<rparr>]
   \<and> blocks (convertSearchResponse
      (responseWith [itemWith ''High-Legal'' (9 / 10), itemWith ''Low-Financial'' (7 / 10)]))
     = [(''turnover'', ''green''), (''shareholding'', ''green''),
        (''bankruptcy'', ''green''), (''legal'', ''green'')]"
  by (simp add: convertSearchResponse_def responseWith_def itemWith_def orEmpty_def
        overallOf_def highRiskCount_def searchResultsOf_def detailRow_def
        riskChipColor_def riskChipIcon_def getProperty_def riskLevelColorMap_def js_or_def)

text \<open>
  Claim C6, as stated, at the empty response. The claim asks for a green verdict that
  carries a "no evidence" indication setting it apart from a verified-low one. The
  verdict the conversion produces for the empty response has the same \<open>overall\<close>,
  \<open>vat\<close> and \<open>blocks\<close> as the verdict for a response with one \<open>Low-Legal\<close> result,
  and the card that the component shows for it is the card it would show under a red
  verdict: it is returned before \<open>overall\<close> is read.
\<close>

theorem empty_verdict_unflagged_counterexample:
  "\<not> (overall (convertSearchResponse (responseWith []))
        \<noteq> overall (convertSearchResponse (responseWith [itemWith ''Low-Legal'' (82 / 100)]))
      \<or> vat (convertSearchResponse (responseWith []))
        \<noteq> vat (convertSearchResponse (responseWith [itemWith ''Low-Legal'' (82 / 100)]))
      \<or> blocks (convertSearchResponse (responseWith []))
        \<noteq> blocks (convertSearchResponse (responseWith [itemWith ''Low-Legal'' (82 / 100)]))
      \<or> render ((convertSearchResponse (responseWith []))\<lparr> overall := ''red'' \<rparr>)
        \<noteq> render (convertSearchResponse (responseWith [])))"
  by (simp add: convertSearchResponse_def responseWith_def itemWith_def orEmpty_def
        overallOf_def highRiskCount_def mediumRiskCount_def render_def hasSearchResults_def
        searchResultsOf_def)

text \<open>
  Claim C6, amended. For a response with no results (an empty or an absent \<open>results\<close>
  array) the conversion produces the overall verdict green, with the same \<open>vat\<close> and
  \<open>blocks\<close> as for any other response; the component then shows, whatever the
  verdict, the card "No results found for this company." in place of the results
  view. For a response with at least one result it shows the results view, whose
  sentence under a green verdict is "Low risk profile. Recommended for renewal.", so
  the two displays differ.
\<close>

theorem empty_results_green_and_no_results_card:
  assumes "orEmpty (results empty_resp) = []" and "orEmpty (results resp) \<noteq> []"
  shows "overall (convertSearchResponse empty_resp) = ''green''
         \<and> vat (convertSearchResponse empty_resp) = vat (convertSearchResponse resp)
         \<and> blocks (convertSearchResponse empty_resp) = blocks (convertSearchResponse resp)
         \<and> render ((convertSearchResponse empty_resp)\<lparr> overall := ov \<rparr>) =
             NoResultsCard ''No results found for this company.''
                           ''Try another search or check your spelling.''
         \<and> render (convertSearchResponse empty_resp) =
             NoResultsCard ''No results found for this company.''
                           ''Try another search or check your spelling.''
         \<and> (\<exists>card. render (convertSearchResponse resp) = ResultsView card
               \<and> (overall (convertSearchResponse resp) = ''green'' \<longrightarrow>
                    overall_message card = ''Low risk profile. Recommended for renewal.''))
         \<and> render (convertSearchResponse resp) \<noteq> render (convertSearchResponse empty_resp)"
proof -
  have e: "\<not> hasSearchResults (convertSearchResponse empty_resp)"
    using assms(1) by (simp add: hasSearchResults_def searchResultsOf_def convertSearchResponse_def)
  have e': "\<not> hasSearchResults ((convertSearchResponse empty_resp)\<lparr> overall := ov \<rparr>)"
    using assms(1) by (simp add: hasSearchResults_def searchResultsOf_def convertSearchResponse_def)
  have n: "hasSearchResults (convertSearchResponse resp)"
    using assms(2) by (simp add: hasSearchResults_def searchResultsOf_def convertSearchResponse_def)
  have g: "overall (convertSearchResponse empty_resp) = ''green''"
    using assms(1)
    by (simp add: convertSearchResponse_def overallOf_def highRiskCount_def mediumRiskCount_def)
  have b: "vat (convertSearchResponse empty_resp) = vat (convertSearchResponse resp)"
          "blocks (convertSearchResponse empty_resp) = blocks (convertSearchResponse resp)"
    by (simp_all add: convertSearchResponse_def)
  have c: "render ((convertSearchResponse empty_resp)\<lparr> overall := ov \<rparr>) =
             NoResultsCard ''No results found for this company.''
                           ''Try another search or check your spelling.''"
    using e' by (simp add: render_def)
  from e n g b c show ?thesis
    by (simp add: render_def overallMessage_def)
qed

theorem empty_results_green_and_no_results_card_witness:
  "orEmpty (results (responseWith [])) = []
   \<and> orEmpty (results mockSearchResponse) \<noteq> []
   \<and> overall (convertSearchResponse (responseWith [])) = ''green''
   \<and> overall (convertSearchResponse mockSearchResponse) = ''green''
   \<and> render (convertSearchResponse (responseWith [])) =
       NoResultsCard ''No results found for this company.''
                     ''Try another search or check your spelling.''
   \<and> render ((convertSearchResponse (responseWith []))\<lparr> overall := ''red'' \<rparr>) =
       NoResultsCard ''No results found for this company.''
                     ''Try another search or check your spelling.''
   \<and> render (convertSearchResponse mockSearchResponse)
       \<noteq> render (convertSearchResponse (responseWith []))"
proof -
  have h1: "orEmpty (results (responseWith [])) = []"
    by (simp add: responseWith_def orEmpty_def)
  have h2: "orEmpty (results mockSearchResponse) \<noteq> []"
    by (simp add: mockSearchResponse_def orEmpty_def)
  have g: "overall (convertSearchResponse mockSearchResponse) = ''green''"
    by (rule mock_overall_green)
  from empty_results_green_and_no_results_card [OF h1 h2, of "''red''"] h1 h2 g show ?thesis
    by auto
qed

text \<open>
  Claim C7. The conversion reads nothing but the response it is given: run on the same
  response from any two documents, the page shows the same converted result, and
  running it again on the document it produced changes nothing.
\<close>

theorem conversion_pure_and_rerunnable:
  assumes "conversionTest resp doc1 = Inr doc1'" and "conversionTest resp doc2 = Inr doc2'"
  shows "doc1' ''conversion-result'' = doc2' ''conversion-result''
         \<and> doc1' ''conversion-result'' = Some (ConversionPassed resp (convertSearchResponse resp))
         \<and> conversionTest resp doc1' = Inr doc1'"
proof -
  from assms(1) have d1: "doc1' = doc1(''conversion-result'' \<mapsto>
      ConversionPassed resp (convertSearchResponse resp))"
    by (auto simp: conversionTest_def Let_def split: option.splits)
  from assms(2) have d2: "doc2' = doc2(''conversion-result'' \<mapsto>
      ConversionPassed resp (convertSearchResponse resp))"
    by (auto simp: conversionTest_def Let_def split: option.splits)
  have "conversionTest resp doc1' = Inr doc1'"
    unfolding d1 by (simp add: conversionTest_def Let_def)
  with d1 d2 show ?thesis by simp
qed

theorem conversion_pure_and_rerunnable_witness:
  "testDataConversion (Map.empty(''conversion-result'' \<mapsto> Markup []))
     = Inr (Map.empty(''conversion-result'' \<mapsto>
         ConversionPassed mockSearchResponse (convertSearchResponse mockSearchResponse)))
   \<and> testDataConversion (Map.empty(''conversion-result'' \<mapsto> Loading ''x''))
     = Inr (Map.empty(''conversion-result'' \<mapsto>
         ConversionPassed mockSearchResponse (convertSearchResponse mockSearchResponse)))
   \<and> testDataConversion (Map.empty(''conversion-result'' \<mapsto>
         ConversionPassed mockSearchResponse (convertSearchResponse mockSearchResponse)))
     = Inr (Map.empty(''conversion-result'' \<mapsto>
         ConversionPassed mockSearchResponse (convertSearchResponse mockSearchResponse)))"
proof -
  have r1: "conversionTest mockSearchResponse (Map.empty(''conversion-result'' \<mapsto> Markup []))
     = Inr (Map.empty(''conversion-result'' \<mapsto>
         ConversionPassed mockSearchResponse (convertSearchResponse mockSearchResponse)))"
    by (simp add: conversionTest_def Let_def)
  have r2: "conversionTest mockSearchResponse (Map.empty(''conversion-result'' \<mapsto> Loading ''x''))
     = Inr (Map.empty(''conversion-result'' \<mapsto>
         ConversionPassed mockSearchResponse (convertSearchResponse mockSearchResponse)))"
    by (simp add: conversionTest_def Let_def)
  from conversion_pure_and_rerunnable [OF r1 r2] r1 r2 show ?thesis
    by (simp add: testDataConversion_def)
qed

text \<open>
  Claim C9. For every backend response the converted result has \<open>vat\<close> equal to
  "N/A" and the four blocks turnover, shareholding, bankruptcy and legal equal to
  "green"; the rows of the Detailed Parameters table are therefore the same four
  green rows whatever the search results are.
\<close>

theorem converted_vat_and_blocks_fixed:
  "vat (convertSearchResponse resp) = ''N/A''
   \<and> blocks (convertSearchResponse resp) =
       [(''turnover'', ''green''), (''shareholding'', ''green''),
        (''bankruptcy'', ''green''), (''legal'', ''green'')]
   \<and> parameterRows (convertSearchResponse resp) =
       [\<lparr> row_param = ''turnover'', row_label = ''GREEN'', row_color = JString ''success'',
          row_icon = CheckCircleIcon \<rparr>,
        \<lparr> row_param = ''shareholding'', row_label = ''GREEN'', row_color = JString ''success'',
          row_icon = CheckCircleIcon \<rparr>,
        \<lparr> row_param = ''bankruptcy'', row_label = ''GREEN'', row_color = JString ''success'',
          row_icon = CheckCircleIcon \<rparr>,
        \<lparr> row_param = ''legal'', row_label = ''GREEN'', row_color = JString ''success'',
          row_icon = CheckCircleIcon \<rparr>]"
  by (simp add: convertSearchResponse_def parameterRows_def parameterRow_green)

section \<open>The display buckets\<close>

text \<open>
  Claim C2, evaluated on the code at the category Tax of the taxonomy. The claim asks
  for the error colour on a result labelled \<open>High-Tax\<close> and for the success colour on
  one labelled \<open>Low-Tax\<close>. Neither label is an entry of \<open>riskLevelColorMap\<close>, so
  both chips get the fallback colour \<open>default\<close>, while the icon of the same chip and
  the counters of the summary bar, which test the prefix, treat the first as High
  and the second as Low.
\<close>

theorem tax_labels_default_colour:
  "''Tax'' \<in> set taxonomy
   \<and> detailRow (itemWith (''High-'' @ ''Tax'') (9 / 10))
       = \<lparr> item_label = ''High-Tax'', item_color = JString ''default'', item_icon = ErrorIcon \<rparr>
   \<and> highCount [itemWith (''High-'' @ ''Tax'') (9 / 10)] = 1
   \<and> detailRow (itemWith (''Low-'' @ ''Tax'') (9 / 10))
       = \<lparr> item_label = ''Low-Tax'', item_color = JString ''default'',
           item_icon = CheckCircleIcon \<rparr>
   \<and> lowCount [itemWith (''Low-'' @ ''Tax'') (9 / 10)] = 1"
  by (simp add: taxonomy_def detailRow_def itemWith_def riskChipColor_def riskChipIcon_def
        getProperty_def riskLevelColorMap_def objectPrototypeKeys_def js_or_def
        highCount_def lowCount_def)

text \<open>
  Claim C4, evaluated on the code. The claim asks that every string outside the
  recognised labels is displayed with the default colour. The string \<open>constructor\<close>
  is not a key of \<open>riskLevelColorMap\<close>, yet reading it from the object literal finds
  the member inherited from \<open>Object.prototype\<close>, which is truthy: the fallback
  \<open>|| "default"\<close> is skipped and the chip's colour is not \<open>default\<close>.
\<close>

theorem inherited_key_skips_default:
  "''constructor'' \<notin> set (map fst riskLevelColorMap)
   \<and> getProperty riskLevelColorMap ''constructor'' = JInherited ''constructor''
   \<and> riskChipColor ''constructor'' = JInherited ''constructor''
   \<and> riskChipColor ''constructor'' \<noteq> JString ''default''
   \<and> riskChipIcon ''constructor'' = InfoOutlinedIcon"
  by (simp add: riskChipColor_def riskChipIcon_def getProperty_def riskLevelColorMap_def
        objectPrototypeKeys_def js_or_def)

section \<open>The summary bar\<close>

text \<open>
  Claim C10. The High, Medium and Low numbers count the results whose \<open>risk_level\<close>
  starts with "High", "Medium" and "Low"; a result with none of these prefixes adds
  one to Total and nothing to the three. Hence Total is at least High + Medium + Low,
  and the two are equal exactly when every result's \<open>risk_level\<close> starts with one of
  the three prefixes.
\<close>

theorem prefix_counts_total:
  "highCount rs + mediumCount rs + lowCount rs \<le> totalCount rs
   \<and> ((highCount rs + mediumCount rs + lowCount rs = totalCount rs) =
        (\<forall>r \<in> set rs. startsWith (risk_level r) ''High''
                      \<or> startsWith (risk_level r) ''Medium''
                      \<or> startsWith (risk_level r) ''Low''))
   \<and> (\<not> startsWith (risk_level x) ''High'' \<and> \<not> startsWith (risk_level x) ''Medium''
        \<and> \<not> startsWith (risk_level x) ''Low'' \<longrightarrow>
        totalCount (x # rs) = totalCount rs + 1
        \<and> highCount (x # rs) = highCount rs
        \<and> mediumCount (x # rs) = mediumCount rs
        \<and> lowCount (x # rs) = lowCount rs)"
  using prefix_counts_bound [of rs] prefix_counts_equal_iff [of rs]
  by (simp add: highCount_def mediumCount_def lowCount_def totalCount_def)

theorem prefix_counts_total_witness:
  "highCount (orEmpty (results mockSearchResponse)) = 0
   \<and> mediumCount (orEmpty (results mockSearchResponse)) = 0
   \<and> lowCount (orEmpty (results mockSearchResponse)) = 1
   \<and> totalCount (orEmpty (results mockSearchResponse)) = 2
   \<and> \<not> (\<forall>r \<in> set (orEmpty (results mockSearchResponse)).
            startsWith (risk_level r) ''High''
            \<or> startsWith (risk_level r) ''Medium''
            \<or> startsWith (risk_level r) ''Low'')
   \<and> totalCount (itemWith ''Unknown'' 0 # [itemWith ''Low-Legal'' (82 / 100)]) = 2
   \<and> lowCount (itemWith ''Unknown'' 0 # [itemWith ''Low-Legal'' (82 / 100)]) = 1"
proof -
  have c: "highCount (orEmpty (results mockSearchResponse)) = 0"
          "mediumCount (orEmpty (results mockSearchResponse)) = 0"
          "lowCount (orEmpty (results mockSearchResponse)) = 1"
          "totalCount (orEmpty (results mockSearchResponse)) = 2"
    by (simp_all add: mockSearchResponse_def orEmpty_def highCount_def mediumCount_def
          lowCount_def totalCount_def)
  have u: "\<not> startsWith (risk_level (itemWith ''Unknown'' 0)) ''High''
           \<and> \<not> startsWith (risk_level (itemWith ''Unknown'' 0)) ''Medium''
           \<and> \<not> startsWith (risk_level (itemWith ''Unknown'' 0)) ''Low''"
    by (simp add: itemWith_def)
  have l: "lowCount [itemWith ''Low-Legal'' (82 / 100)] = 1"
          "totalCount [itemWith ''Low-Legal'' (82 / 100)] = 1"
    by (simp_all add: lowCount_def totalCount_def itemWith_def)
  from prefix_counts_total [of "orEmpty (results mockSearchResponse)"] c
  have a: "\<not> (\<forall>r \<in> set (orEmpty (results mockSearchResponse)).
            startsWith (risk_level r) ''High''
            \<or> startsWith (risk_level r) ''Medium''
            \<or> startsWith (risk_level r) ''Low'')"
    by simp
  from prefix_counts_total [of "[itemWith ''Low-Legal'' (82 / 100)]" "itemWith ''Unknown'' 0"] u l
  have b: "totalCount (itemWith ''Unknown'' 0 # [itemWith ''Low-Legal'' (82 / 100)]) = 2
           \<and> lowCount (itemWith ''Unknown'' 0 # [itemWith ''Low-Legal'' (82 / 100)]) = 1"
    by simp
  from a b c show ?thesis by simp
qed

section \<open>The bounded retry of the management summary\<close>

text \<open>
  Claim C3, evaluated on the code. The claim asks that after three failed retries no
  further request for the summary is sent. In the run below the first request and
  three retries fail, with a render after every event; the Retry button is then
  disabled and reads "Max retries reached". The primary button is still enabled, and
  the click on it that ends the run sends a fifth request with the same payload.
\<close>

theorem primary_button_sends_after_max_retries:
  "retryCount (comp_state (run (convertSearchResponse mockSearchResponse)
      (mount (convertSearchResponse mockSearchResponse))
      (withRerender
        [ClickPrimary, HookUpdate True False, HookUpdate False True, Settled True,
         ClickRetry, HookUpdate True False, HookUpdate False True, Settled True,
         ClickRetry, HookUpdate True False, HookUpdate False True, Settled True,
         ClickRetry, HookUpdate True False, HookUpdate False True, Settled True]))) = 3
   \<and> comp_buttons (run (convertSearchResponse mockSearchResponse)
      (mount (convertSearchResponse mockSearchResponse))
      (withRerender
        [ClickPrimary, HookUpdate True False, HookUpdate False True, Settled True,
         ClickRetry, HookUpdate True False, HookUpdate False True, Settled True,
         ClickRetry, HookUpdate True False, HookUpdate False True, Settled True,
         ClickRetry, HookUpdate True False, HookUpdate False True, Settled True]))
     = \<lparr> retryShown = True, retryDisabled = True, retryLabel = ''Max retries reached'',
         primaryShown = True, primaryDisabled = False \<rparr>
   \<and> invocations (comp_state (run (convertSearchResponse mockSearchResponse)
      (mount (convertSearchResponse mockSearchResponse))
      (withRerender
        [ClickPrimary, HookUpdate True False, HookUpdate False True, Settled True,
         ClickRetry, HookUpdate True False, HookUpdate False True, Settled True,
         ClickRetry, HookUpdate True False, HookUpdate False True, Settled True,
         ClickRetry, HookUpdate True False, HookUpdate False True, Settled True,
         ClickPrimary])))
     = [PrimaryButton, RetryButton, RetryButton, RetryButton, PrimaryButton]"
proof -
  have h: "hasSearchResults (convertSearchResponse mockSearchResponse)"
    by (simp add: hasSearchResults_def searchResultsOf_def convertSearchResponse_def
          mockSearchResponse_def orEmpty_def)
  have n: "length (searchResultsOf (convertSearchResponse mockSearchResponse)) \<noteq> 0"
    using h by (simp add: hasSearchResults_def)
  show ?thesis
    using h n
    by (simp add: run_def mount_def withRerender_def initialState_def renderButtons_def
          handleGetSummary_def handleRetrySummary_def afterAwait_def)
qed

end
